theory Spec2Isabelle
  imports Main
begin

section \<open>The Zkitter facade of zkitterjs (src/services/index.ts)\<close>

text \<open>
  The class \<^verbatim>\<open>Zkitter\<close> wires seven sub-services together. Its private method
  \<^verbatim>\<open>insert\<close> dispatches a message on its type to one of four services and emits an
  event; the query and subscribe methods hand a guarded call of \<^verbatim>\<open>insert\<close> to the
  pubsub service as the handler of every delivery. The sub-services themselves are other
  files of the repository; here each of their methods the facade calls is a field of the
  record \<open>services\<close>, so every theorem about the facade holds for any behaviour of
  theirs.
\<close>

subsection \<open>Messages, proofs, events\<close>

text \<open>
  \<^verbatim>\<open>MessageType\<close>: the four members \<^verbatim>\<open>insert\<close> has a case label for
  (\<^verbatim>\<open>MessageType.Post\<close>, \<^verbatim>\<open>.Moderation\<close>, \<^verbatim>\<open>.Connection\<close>, \<^verbatim>\<open>.Profile\<close>), and
  \<open>OtherType\<close> for any other value the field holds at run time.
\<close>

datatype MessageType = Post | Moderation | Connection | Profile | OtherType string

text \<open>
  Modelled from the spec: the fields of a message (utils/message.ts is not among the
  sources), \<^emph>\<open>\<^verbatim>\<open>type\<close>, \<^verbatim>\<open>creator\<close> (address, empty if anonymous), \<^verbatim>\<open>content\<close>,
  optional \<^verbatim>\<open>reference\<close>, \<^verbatim>\<open>createdAt\<close>\<close>. The field \<open>msg_type\<close> is
  \<^verbatim>\<open>msg.type\<close>, the only field the facade reads; \<open>None\<close> is JavaScript's
  \<^verbatim>\<open>undefined\<close>.
\<close>

record Message =
  msg_type :: "MessageType option"
  creator :: string
  content :: string
  reference :: "string option"
  createdAt :: nat

text \<open>
  Modelled from the spec: the two variants of a proof (models/proof.ts is not among the
  sources), \<^emph>\<open>Signature variant: \<^verbatim>\<open>{ signature, address }\<close>\<close> and \<^emph>\<open>Group variant:
  \<^verbatim>\<open>{ root, nullifier, externalNullifier, zkProof }\<close>\<close>, the fields in this order. The
  facade passes a proof on and never looks into it.
\<close>

datatype Proof =
    SignatureProof string string
  | GroupProof string string string string

text \<open>
  \<^verbatim>\<open>enum ZkitterEvents\<close> with the string each member stands for; an emitter is keyed
  by these strings.
\<close>

datatype ZkitterEvents = ArbitrumSynced | AlreadyExist | NewMessageCreated

fun event_name :: "ZkitterEvents \<Rightarrow> string" where
  "event_name ArbitrumSynced = ''Users.ArbitrumSynced''"
| "event_name AlreadyExist = ''Level.AlreadyExist''"
| "event_name NewMessageCreated = ''Zkitter.NewMessageCreated''"

text \<open>
  What a call can throw: the sentinel \<^verbatim>\<open>AlreadyExistError\<close> of the LevelDB adapter,
  which the catch block compares with \<^verbatim>\<open>===\<close>, or anything else. A call either returns
  or throws, and leaves a state behind in both cases.
\<close>

datatype thrown = AlreadyExistError | OtherError string

datatype 'a outcome = Returned 'a | Threw thrown 'a

text \<open>
  The seven services, in the order of the object literal the constructor builds
  (the order \<^verbatim>\<open>Object.values\<close> walks).
\<close>

datatype service_name =
    PubsubService | UserService | PostService | ModerationService
  | ConnectionService | ProfileService | GroupService

text \<open>The second argument of \<^verbatim>\<open>emit\<close>: a message, null or undefined, or any other value.\<close>

datatype payload = MsgValue Message | NoValue | OtherValue string

fun payload_of :: "Message option \<Rightarrow> payload" where
  "payload_of None = NoValue"
| "payload_of (Some m) = MsgValue m"

text \<open>
  The node's observable actions, in the order they happen: a call of a service's
  \<^verbatim>\<open>insert\<close>, an event emitted to the facade's own subscribers, a message published
  on the transport, a call of the proof verifier.
\<close>

datatype effect =
    InsertCall service_name Message Proof
  | Emitted string payload
  | Published Message Proof
  | VerifyCall Message Proof

subsection \<open>The services the facade calls\<close>

text \<open>
  The pubsub service's eight delivering methods, each with the target it is called with.
\<close>

datatype pubsub_call =
    QueryUser string
  | QueryGroup string
  | QueryAll
  | SubscribeAll
  | SubscribeUsers "string list"
  | SubscribeThreads "string list"
  | SubscribeUser string
  | SubscribeThread string

text \<open>
  Modelled from the spec: a user as the address registry knows it, an address with its
  registration time (models/user.ts is not among the sources). The facade only tests a
  looked-up user for null and copies it.
\<close>

record User =
  user_address :: string
  joinedAt :: nat

text \<open>The options of \<^verbatim>\<open>write\<close> (lines 294-302); an optional field absent is \<open>None\<close>.\<close>

record write_options =
  opt_creator :: string
  opt_content :: string
  opt_reference :: "string option"
  opt_privateKey :: "string option"
  opt_zkIdentity :: "string option"
  opt_global :: "bool option"
  opt_groupId :: "string option"

text \<open>
  \<open>'db\<close> is the state behind the services (they share one database adapter). An
  \<^verbatim>\<open>insert\<close> of a service returns or throws and leaves a database behind; \<open>feed\<close> is
  the list of \<^verbatim>\<open>(msg, proof)\<close> pairs the pubsub service delivers for a call, a null
  message being \<open>None\<close>; \<open>make_message\<close> and \<open>make_proof\<close> are the construction
  of an authored message and its proof from the authoring options.
\<close>

record 'db services =
  posts_insert :: "'db \<Rightarrow> Message \<Rightarrow> Proof \<Rightarrow> 'db outcome"
  moderations_insert :: "'db \<Rightarrow> Message \<Rightarrow> Proof \<Rightarrow> 'db outcome"
  connections_insert :: "'db \<Rightarrow> Message \<Rightarrow> Proof \<Rightarrow> 'db outcome"
  profile_insert :: "'db \<Rightarrow> Message \<Rightarrow> Proof \<Rightarrow> 'db outcome"
  users_getUser :: "'db \<Rightarrow> string \<Rightarrow> User option"
  posts_getPost :: "'db \<Rightarrow> string \<Rightarrow> Message option"
  feed :: "pubsub_call \<Rightarrow> (Message option \<times> Proof) list"
  make_message :: "write_options \<Rightarrow> Message"
  make_proof :: "write_options \<Rightarrow> Message \<Rightarrow> Proof"

subsection \<open>The facade\<close>

text \<open>
  A listener registered with \<^verbatim>\<open>onAny\<close>. The only one the facade registers is the
  arrow function of the constructor, \<^verbatim>\<open>(event, value) => this.emit(event, value)\<close>.
\<close>

datatype listener = ForwardToFacade

text \<open>
  The facade's state: the database behind the services, the \<^verbatim>\<open>onAny\<close> registrations
  on the services, and the actions performed so far.
\<close>

record 'db Zkitter =
  db :: 'db
  anyListeners :: "(service_name \<times> listener) list"
  effects :: "effect list"

text \<open>
  \<^verbatim>\<open>this.emit(event, value)\<close>: the event goes to the facade's subscribers, who are
  outside the model and taken not to throw.
\<close>

definition emit :: "'db Zkitter \<Rightarrow> string \<Rightarrow> payload \<Rightarrow> 'db Zkitter" where
  "emit z event v = z\<lparr>effects := effects z @ [Emitted event v]\<rparr>"

text \<open>
  \<^verbatim>\<open>await this.services.X.insert(msg, proof)\<close>: the call is recorded, and the service's
  outcome becomes the facade's.
\<close>

definition call_insert ::
  "('db \<Rightarrow> Message \<Rightarrow> Proof \<Rightarrow> 'db outcome) \<Rightarrow> service_name \<Rightarrow> 'db Zkitter \<Rightarrow> Message \<Rightarrow> Proof
    \<Rightarrow> 'db Zkitter outcome" where
  "call_insert ins svc z m p =
     (case ins (db z) m p of
        Returned d \<Rightarrow> Returned (z\<lparr>db := d, effects := effects z @ [InsertCall svc m p]\<rparr>)
      | Threw e d \<Rightarrow> Threw e (z\<lparr>db := d, effects := effects z @ [InsertCall svc m p]\<rparr>))"

text \<open>
  The body of the \<^verbatim>\<open>try\<close> block of \<^verbatim>\<open>insert\<close>: \<^verbatim>\<open>switch (msg?.type)\<close> with four
  case labels and no default. A null message has the type \<^verbatim>\<open>undefined\<close>, which no
  label matches.
\<close>

fun try_block :: "'db services \<Rightarrow> 'db Zkitter \<Rightarrow> Message option \<Rightarrow> Proof \<Rightarrow> 'db Zkitter outcome" where
  "try_block S z None p = Returned z"
| "try_block S z (Some m) p =
     (case msg_type m of
        Some Post \<Rightarrow>
          (case call_insert (posts_insert S) PostService z m p of
             Returned z1 \<Rightarrow> Returned (emit z1 (event_name NewMessageCreated) (MsgValue m))
           | Threw e z1 \<Rightarrow> Threw e z1)
      | Some Moderation \<Rightarrow>
          (case call_insert (moderations_insert S) ModerationService z m p of
             Returned z1 \<Rightarrow> Returned (emit z1 (event_name NewMessageCreated) (MsgValue m))
           | Threw e z1 \<Rightarrow> Threw e z1)
      | Some Connection \<Rightarrow>
          (case call_insert (connections_insert S) ConnectionService z m p of
             Returned z1 \<Rightarrow> Returned (emit z1 (event_name NewMessageCreated) (MsgValue m))
           | Threw e z1 \<Rightarrow> Threw e z1)
      | Some Profile \<Rightarrow>
          (case call_insert (profile_insert S) ProfileService z m p of
             Returned z1 \<Rightarrow> Returned (emit z1 (event_name NewMessageCreated) (MsgValue m))
           | Threw e z1 \<Rightarrow> Threw e z1)
      | Some (OtherType s) \<Rightarrow> Returned z
      | None \<Rightarrow> Returned z)"

text \<open>
  \<^verbatim>\<open>insert\<close> (lines 211-236): the \<^verbatim>\<open>try\<close> block and its \<^verbatim>\<open>catch\<close>, which emits
  \<^verbatim>\<open>AlreadyExist\<close> with the message when the thrown value is the sentinel and has no
  other branch.
\<close>

definition insert_msg :: "'db services \<Rightarrow> 'db Zkitter \<Rightarrow> Message option \<Rightarrow> Proof \<Rightarrow> 'db Zkitter outcome" where
  "insert_msg S z msg p =
     (case try_block S z msg p of
        Returned z1 \<Rightarrow> Returned z1
      | Threw e z1 \<Rightarrow>
          if e = AlreadyExistError
          then Returned (emit z1 (event_name AlreadyExist) (payload_of msg))
          else Returned z1)"

text \<open>
  The handler the facade passes to the pubsub service,
  \<^verbatim>\<open>async (msg, proof) => { if (msg) { await this.insert(msg, proof); } }\<close>.
  The source writes it out at each of its eight uses (lines 130, 150, 239, 247, 255, 263,
  271 and 279), the same text every time. \<open>guarded\<close> is the arrow function with the
  method it calls as an argument, so that what the guard lets through can be stated for
  any callee; \<open>handler\<close> is the arrow function itself.
\<close>

definition guarded ::
  "('z \<Rightarrow> Message option \<Rightarrow> Proof \<Rightarrow> 'z outcome) \<Rightarrow> 'z \<Rightarrow> Message option \<Rightarrow> Proof \<Rightarrow> 'z outcome" where
  "guarded ins z msg p = (if msg \<noteq> None then ins z msg p else Returned z)"

definition handler :: "'db services \<Rightarrow> 'db Zkitter \<Rightarrow> Message option \<Rightarrow> Proof \<Rightarrow> 'db Zkitter outcome" where
  "handler S = guarded (insert_msg S)"

text \<open>
  Modelled from the spec: the delivering methods of the pubsub service
  (services/pubsub.ts is not among the sources). Each \<^emph>\<open>invokes \<^verbatim>\<open>handler(message, proof)\<close>
  once per result\<close>, in the order of the results; a handler that throws ends the delivery
  with what it threw. For a subscription the list is what arrives while it is active.
\<close>

fun deliver ::
  "('z \<Rightarrow> Message option \<Rightarrow> Proof \<Rightarrow> 'z outcome) \<Rightarrow> 'z \<Rightarrow> (Message option \<times> Proof) list \<Rightarrow> 'z outcome" where
  "deliver h z [] = Returned z"
| "deliver h z ((msg, p) # ds) =
     (case h z msg p of
        Returned z1 \<Rightarrow> deliver h z1 ds
      | Threw e z1 \<Rightarrow> Threw e z1)"

definition pubsub_run ::
  "'db services \<Rightarrow> pubsub_call \<Rightarrow> ('db Zkitter \<Rightarrow> Message option \<Rightarrow> Proof \<Rightarrow> 'db Zkitter outcome)
    \<Rightarrow> 'db Zkitter \<Rightarrow> 'db Zkitter outcome" where
  "pubsub_run S c h z = deliver h z (feed S c)"

text \<open>The six query and subscribe methods (lines 238-284).\<close>

definition queryUser :: "'db services \<Rightarrow> 'db Zkitter \<Rightarrow> string \<Rightarrow> 'db Zkitter outcome" where
  "queryUser S z address = pubsub_run S (QueryUser address) (handler S) z"

definition queryGroup :: "'db services \<Rightarrow> 'db Zkitter \<Rightarrow> string \<Rightarrow> 'db Zkitter outcome" where
  "queryGroup S z groupId = pubsub_run S (QueryGroup groupId) (handler S) z"

definition queryAll :: "'db services \<Rightarrow> 'db Zkitter \<Rightarrow> 'db Zkitter outcome" where
  "queryAll S z = pubsub_run S QueryAll (handler S) z"

definition subscribe :: "'db services \<Rightarrow> 'db Zkitter \<Rightarrow> 'db Zkitter outcome" where
  "subscribe S z = pubsub_run S SubscribeAll (handler S) z"

definition subscribeUsers :: "'db services \<Rightarrow> 'db Zkitter \<Rightarrow> string list \<Rightarrow> 'db Zkitter outcome" where
  "subscribeUsers S z addresses = pubsub_run S (SubscribeUsers addresses) (handler S) z"

definition subscribeThreads :: "'db services \<Rightarrow> 'db Zkitter \<Rightarrow> string list \<Rightarrow> 'db Zkitter outcome" where
  "subscribeThreads S z hashes = pubsub_run S (SubscribeThreads hashes) (handler S) z"

text \<open>
  \<^verbatim>\<open>user\<close> and \<^verbatim>\<open>thread\<close> (lines 120-157): null when the user or the post is not
  known, else the record found together with a \<^verbatim>\<open>subscribe\<close> closure, which runs on the
  facade's state at the time it is called.
\<close>

definition user_subscribe :: "'db services \<Rightarrow> string \<Rightarrow> 'db Zkitter \<Rightarrow> 'db Zkitter outcome" where
  "user_subscribe S address z = pubsub_run S (SubscribeUser address) (handler S) z"

definition user ::
  "'db services \<Rightarrow> 'db Zkitter \<Rightarrow> string \<Rightarrow> (User \<times> ('db Zkitter \<Rightarrow> 'db Zkitter outcome)) option" where
  "user S z address =
     (case users_getUser S (db z) address of
        None \<Rightarrow> None
      | Some u \<Rightarrow> Some (u, user_subscribe S address))"

definition thread_subscribe :: "'db services \<Rightarrow> string \<Rightarrow> 'db Zkitter \<Rightarrow> 'db Zkitter outcome" where
  "thread_subscribe S hash z = pubsub_run S (SubscribeThread hash) (handler S) z"

definition thread ::
  "'db services \<Rightarrow> 'db Zkitter \<Rightarrow> string \<Rightarrow> (Message \<times> ('db Zkitter \<Rightarrow> 'db Zkitter outcome)) option" where
  "thread S z hash =
     (case posts_getPost S (db z) hash of
        None \<Rightarrow> None
      | Some post \<Rightarrow> Some (post, thread_subscribe S hash))"

text \<open>
  The constructor (lines 87-114): it stores the database and the services, then walks
  \<^verbatim>\<open>Object.values(this.services)\<close> and registers the forwarding listener on each
  service with \<^verbatim>\<open>onAny\<close>.
\<close>

definition onAny :: "service_name \<Rightarrow> listener \<Rightarrow> 'db Zkitter \<Rightarrow> 'db Zkitter" where
  "onAny svc l z = z\<lparr>anyListeners := anyListeners z @ [(svc, l)]\<rparr>"

definition constructor :: "'db \<Rightarrow> 'db Zkitter" where
  "constructor d =
     foldl (\<lambda>z svc. onAny svc ForwardToFacade z)
       \<lparr>db = d, anyListeners = [], effects = []\<rparr>
       [PubsubService, UserService, PostService, ModerationService,
        ConnectionService, ProfileService, GroupService]"

fun run_listener :: "listener \<Rightarrow> string \<Rightarrow> payload \<Rightarrow> 'db Zkitter \<Rightarrow> 'db Zkitter" where
  "run_listener ForwardToFacade event v z = emit z event v"

text \<open>
  A service emitting an event: the emitter (EventEmitter2, behind \<^verbatim>\<open>GenericService\<close>)
  calls every listener registered on that service with \<^verbatim>\<open>onAny\<close>, in the order of
  registration, with the event's name and value.
\<close>

definition service_emit :: "service_name \<Rightarrow> string \<Rightarrow> payload \<Rightarrow> 'db Zkitter \<Rightarrow> 'db Zkitter" where
  "service_emit svc event v z =
     foldl (\<lambda>z' l. run_listener l event v z') z
       (map snd (filter (\<lambda>sl. fst sl = svc) (anyListeners z)))"

text \<open>
  Modelled from the spec: \<^verbatim>\<open>PubsubService.write\<close> (services/pubsub.ts is not among the
  sources), which \<^emph>\<open>constructs the Message and corresponding Proof locally, publishes it
  on the transport, and returns the constructed message\<close>.
\<close>

definition pubsub_write :: "'db services \<Rightarrow> 'db Zkitter \<Rightarrow> write_options \<Rightarrow> 'db Zkitter \<times> Message" where
  "pubsub_write S z opts =
     (let m = make_message S opts; p = make_proof S opts m
      in (z\<lparr>effects := effects z @ [Published m p]\<rparr>, m))"

text \<open>\<^verbatim>\<open>write\<close> (lines 294-304): \<^verbatim>\<open>return this.services.pubsub.write(options)\<close>.\<close>

definition write_msg :: "'db services \<Rightarrow> 'db Zkitter \<Rightarrow> write_options \<Rightarrow> 'db Zkitter \<times> Message" where
  "write_msg S z opts = pubsub_write S z opts"

text \<open>Reading an outcome: did the call return, and the state it left.\<close>

fun returned :: "'a outcome \<Rightarrow> bool" where
  "returned (Returned z) = True"
| "returned (Threw e z) = False"

fun state_of :: "'a outcome \<Rightarrow> 'a" where
  "state_of (Returned z) = z"
| "state_of (Threw e z) = z"

text \<open>The events among a list of actions, and the service calls among them.\<close>

fun emitted :: "effect list \<Rightarrow> (string \<times> payload) list" where
  "emitted [] = []"
| "emitted (Emitted event v # es) = (event, v) # emitted es"
| "emitted (e # es) = emitted es"

fun insert_calls :: "effect list \<Rightarrow> (service_name \<times> Message \<times> Proof) list" where
  "insert_calls [] = []"
| "insert_calls (InsertCall svc m p # es) = (svc, m, p) # insert_calls es"
| "insert_calls (e # es) = insert_calls es"

text \<open>The calls of the proof verifier among a list of actions.\<close>

fun verify_calls :: "effect list \<Rightarrow> (Message \<times> Proof) list" where
  "verify_calls [] = []"
| "verify_calls (VerifyCall m p # es) = (m, p) # verify_calls es"
| "verify_calls (e # es) = verify_calls es"

section \<open>The components the facade relies on, from the specification\<close>

subsection \<open>ContentStore\<close>

text \<open>
  Modelled from the spec: the per-type message stores behind \<^verbatim>\<open>PostService\<close>,
  \<^verbatim>\<open>ModerationService\<close>, \<^verbatim>\<open>ConnectionService\<close> and \<^verbatim>\<open>ProfileService\<close> (their files
  and the database adapter are not among the sources). An entry is
  \<^verbatim>\<open>hash -> (Message, Proof)\<close>, with secondary indices by creator and by reference and
  an insertion-ordered log. \<^emph>\<open>Insert is atomic check-and-set keyed by \<^verbatim>\<open>message.hash\<close>: if an
  entry with that hash exists, return \<^verbatim>\<open>AlreadyExists\<close> and perform no mutation;
  otherwise persist \<^verbatim>\<open>(message, proof)\<close> and update secondary indices.\<close> The hash
  function \<open>H\<close> is a parameter.
\<close>

record content_store =
  entries :: "(string \<times> Message \<times> Proof) list"
  by_creator :: "(string \<times> string) list"
  by_reference :: "(string \<times> string) list"
  insertion_log :: "string list"

datatype insert_result = Inserted content_store | AlreadyExists

definition store_insert :: "(Message \<Rightarrow> string) \<Rightarrow> content_store \<Rightarrow> Message \<Rightarrow> Proof \<Rightarrow> insert_result" where
  "store_insert H st m p =
     (if map_of (entries st) (H m) \<noteq> None then AlreadyExists
      else Inserted
        \<lparr>entries = entries st @ [(H m, m, p)],
         by_creator = by_creator st @ [(creator m, H m)],
         by_reference =
           (case reference m of
              None \<Rightarrow> by_reference st
            | Some parent \<Rightarrow> by_reference st @ [(parent, H m)]),
         insertion_log = insertion_log st @ [H m]\<rparr>)"

text \<open>The storage is partitioned by message type.\<close>

record node_db =
  post_store :: content_store
  moderation_store :: content_store
  connection_store :: content_store
  profile_store :: content_store

text \<open>
  A service's \<^verbatim>\<open>insert\<close> over its partition. The facade's catch block compares the
  thrown value with \<^verbatim>\<open>AlreadyExistError\<close>, so that is how the already-exists outcome
  reaches it.
\<close>

definition partition_insert ::
  "(Message \<Rightarrow> string) \<Rightarrow> (node_db \<Rightarrow> content_store) \<Rightarrow> (content_store \<Rightarrow> node_db \<Rightarrow> node_db)
    \<Rightarrow> node_db \<Rightarrow> Message \<Rightarrow> Proof \<Rightarrow> node_db outcome" where
  "partition_insert H sel upd d m p =
     (case store_insert H (sel d) m p of
        AlreadyExists \<Rightarrow> Threw AlreadyExistError d
      | Inserted st \<Rightarrow> Returned (upd st d))"

definition content_services :: "(Message \<Rightarrow> string) \<Rightarrow> node_db services \<Rightarrow> node_db services" where
  "content_services H S =
     S\<lparr>posts_insert := partition_insert H post_store (\<lambda>st d. d\<lparr>post_store := st\<rparr>),
       moderations_insert := partition_insert H moderation_store (\<lambda>st d. d\<lparr>moderation_store := st\<rparr>),
       connections_insert := partition_insert H connection_store (\<lambda>st d. d\<lparr>connection_store := st\<rparr>),
       profile_insert := partition_insert H profile_store (\<lambda>st d. d\<lparr>profile_store := st\<rparr>)\<rparr>"

text \<open>The entry stored for a message in the partition of its type, if there is one.\<close>

definition stored_entry :: "(Message \<Rightarrow> string) \<Rightarrow> node_db \<Rightarrow> Message \<Rightarrow> (Message \<times> Proof) option" where
  "stored_entry H d m =
     (case msg_type m of
        Some Post \<Rightarrow> map_of (entries (post_store d)) (H m)
      | Some Moderation \<Rightarrow> map_of (entries (moderation_store d)) (H m)
      | Some Connection \<Rightarrow> map_of (entries (connection_store d)) (H m)
      | Some Profile \<Rightarrow> map_of (entries (profile_store d)) (H m)
      | Some (OtherType s) \<Rightarrow> None
      | None \<Rightarrow> None)"

subsection \<open>ProofVerifier and NullifierLedger\<close>

text \<open>
  Modelled from the spec: \<^verbatim>\<open>verify(message, proof) -> Accept | Reject(reason)\<close> (no
  verifier is among the sources, and the facade's \<^verbatim>\<open>insert\<close> calls none). The
  signature check, the zero-knowledge proof system, the address registry and the group
  registry's \<^verbatim>\<open>getGroupByRoot\<close> are parameters. Signature variant: \<^emph>\<open>verifies the
  signature against \<^verbatim>\<open>message.hash\<close>; reason codes \<^verbatim>\<open>InvalidSignature\<close>,
  \<^verbatim>\<open>UnknownAddress\<close> (if registration is required and the address is not a known
  user)\<close>. Group variant: \<^emph>\<open>looks up \<^verbatim>\<open>proof.root\<close> via GroupRegistry; if absent,
  \<^verbatim>\<open>Reject(UnknownRoot)\<close>. Otherwise verifies the zero-knowledge proof against the
  public signals; on cryptographic failure, \<^verbatim>\<open>Reject(InvalidProof)\<close>. On success, checks
  NullifierLedger for \<^verbatim>\<open>(nullifier, externalNullifier)\<close>; if present,
  \<^verbatim>\<open>Reject(NullifierReused)\<close>; otherwise records it and returns \<^verbatim>\<open>Accept\<close>.\<close>
  The ledger is the list of the pairs seen, each with its group. A signature proof is
  \<open>SignatureProof signature address\<close>, a group proof
  \<open>GroupProof root nullifier externalNullifier zkProof\<close>.
\<close>

datatype reject_reason =
  InvalidSignature | UnknownAddress | UnknownRoot | InvalidProof | NullifierReused

datatype verdict = Accept | Reject reject_reason

record verifier_env =
  hash_of :: "Message \<Rightarrow> string"
  verify_signature :: "string \<Rightarrow> string \<Rightarrow> string \<Rightarrow> bool"
  registration_required :: bool
  known_user :: "string \<Rightarrow> bool"
  getGroupByRoot :: "string \<Rightarrow> string option"
  zk_verify :: "string \<Rightarrow> string \<Rightarrow> string \<Rightarrow> string \<Rightarrow> string \<Rightarrow> bool"

type_synonym nullifier_ledger = "(string \<times> string \<times> string) list"

fun verify :: "verifier_env \<Rightarrow> nullifier_ledger \<Rightarrow> Message \<Rightarrow> Proof \<Rightarrow> verdict \<times> nullifier_ledger" where
  "verify E L m (SignatureProof sg addr) =
     (if \<not> verify_signature E sg (hash_of E m) addr then (Reject InvalidSignature, L)
      else if registration_required E \<and> \<not> known_user E addr then (Reject UnknownAddress, L)
      else (Accept, L))"
| "verify E L m (GroupProof r n e zk) =
     (case getGroupByRoot E r of
        None \<Rightarrow> (Reject UnknownRoot, L)
      | Some g \<Rightarrow>
          if \<not> zk_verify E zk r n e (hash_of E m) then (Reject InvalidProof, L)
          else if (g, n, e) \<in> set L then (Reject NullifierReused, L)
          else (Accept, L @ [(g, n, e)]))"

text \<open>
  Modelled from the spec: a node's call of ProofVerifier (no verifier is among the
  sources). The NullifierLedger is part of the state behind the services, next to the
  content stores, and \<^emph>\<open>the nullifier check and record must be a single atomic
  check-and-set\<close>: a call of the verifier reads the node's ledger, leaves the ledger
  \<open>verify\<close> returns, and is one action of the node. This is the only way a node runs
  the verifier, so the verifier has run exactly as often as \<open>VerifyCall\<close> stands among
  the actions.
\<close>

record node_state =
  stores :: node_db
  nullifiers :: nullifier_ledger

definition call_verify ::
  "verifier_env \<Rightarrow> node_state Zkitter \<Rightarrow> Message \<Rightarrow> Proof \<Rightarrow> node_state Zkitter \<times> verdict" where
  "call_verify E z m p =
     (case verify E (nullifiers (db z)) m p of
        (v, L) \<Rightarrow>
          (z\<lparr>db := (db z)\<lparr>nullifiers := L\<rparr>, effects := effects z @ [VerifyCall m p]\<rparr>, v))"

section \<open>Concrete inputs\<close>

text \<open>
  A small node on which the theorems below are run: one message of each type the facade
  dispatches, a second post, a message of a type the facade has no case for, a toy hash,
  empty stores, services whose four inserts all end the same way, services over the
  content stores, and a verifier environment with one group that has two roots.
\<close>

definition post1 :: Message where
  "post1 = \<lparr>msg_type = Some Post, creator = ''0xa1'', content = ''gm'', reference = None, createdAt = 1\<rparr>"

definition post2 :: Message where
  "post2 = \<lparr>msg_type = Some Post, creator = [], content = ''anon'', reference = Some ''0xa1gm'', createdAt = 2\<rparr>"

definition moderation1 :: Message where
  "moderation1 = \<lparr>msg_type = Some Moderation, creator = ''0xa1'', content = ''like'', reference = Some ''0xa1gm'', createdAt = 3\<rparr>"

definition connection1 :: Message where
  "connection1 = \<lparr>msg_type = Some Connection, creator = ''0xa1'', content = ''follow'', reference = None, createdAt = 4\<rparr>"

definition profile1 :: Message where
  "profile1 = \<lparr>msg_type = Some Profile, creator = ''0xa1'', content = ''name'', reference = None, createdAt = 5\<rparr>"

definition file1 :: Message where
  "file1 = \<lparr>msg_type = Some (OtherType ''FILE''), creator = ''0xa1'', content = ''blob'', reference = None, createdAt = 6\<rparr>"

definition untyped1 :: Message where
  "untyped1 = \<lparr>msg_type = None, creator = ''0xa1'', content = ''raw'', reference = None, createdAt = 7\<rparr>"

definition sig1 :: Proof where
  "sig1 = SignatureProof ''s1'' ''0xa1''"

definition toy_hash :: "Message \<Rightarrow> string" where
  "toy_hash m = creator m @ content m"

definition empty_store :: content_store where
  "empty_store = \<lparr>entries = [], by_creator = [], by_reference = [], insertion_log = []\<rparr>"

definition empty_db :: node_db where
  "empty_db = \<lparr>post_store = empty_store, moderation_store = empty_store,
               connection_store = empty_store, profile_store = empty_store\<rparr>"

definition toy_feed :: "pubsub_call \<Rightarrow> (Message option \<times> Proof) list" where
  "toy_feed c = [(Some post1, sig1), (None, sig1), (Some post1, sig1)]"

definition stub_services :: "('db \<Rightarrow> 'db outcome) \<Rightarrow> 'db services" where
  "stub_services r =
     \<lparr>posts_insert = (\<lambda>d m p. r d),
      moderations_insert = (\<lambda>d m p. r d),
      connections_insert = (\<lambda>d m p. r d),
      profile_insert = (\<lambda>d m p. r d),
      users_getUser = (\<lambda>d a. if a = ''0xa1'' then Some \<lparr>user_address = a, joinedAt = 0\<rparr> else None),
      posts_getPost = (\<lambda>d h. if h = ''0xa1gm'' then Some post1 else None),
      feed = toy_feed,
      make_message = (\<lambda>opts. post1),
      make_proof = (\<lambda>opts m. sig1)\<rparr>"

definition failing_services :: "node_db services" where
  "failing_services = stub_services (Threw (OtherError ''storage failure''))"

definition toy_services :: "node_db services" where
  "toy_services = content_services toy_hash failing_services"

definition node0 :: "node_db Zkitter" where
  "node0 = constructor empty_db"

text \<open>
  An author on a node that verifies: an anonymous post under a group proof, and services
  that construct it.
\<close>

definition anon_proof :: Proof where
  "anon_proof = GroupProof ''r0'' ''n1'' ''e1'' ''ok''"

definition anon_options :: write_options where
  "anon_options = \<lparr>opt_creator = [], opt_content = ''anon'', opt_reference = Some ''0xa1gm'',
                   opt_privateKey = None, opt_zkIdentity = Some ''id'', opt_global = None,
                   opt_groupId = Some ''g''\<rparr>"

definition authoring_services :: "node_state services" where
  "authoring_services =
     (stub_services Returned)\<lparr>make_message := (\<lambda>opts. post2), make_proof := (\<lambda>opts m. anon_proof)\<rparr>"

definition node1 :: "node_state Zkitter" where
  "node1 = constructor \<lparr>stores = empty_db, nullifiers = []\<rparr>"

definition toy_env :: verifier_env where
  "toy_env =
     \<lparr>hash_of = toy_hash,
      verify_signature = (\<lambda>sg h addr. sg = ''s1''),
      registration_required = False,
      known_user = (\<lambda>addr. False),
      getGroupByRoot = (\<lambda>r. if r = ''r0'' \<or> r = ''r1'' then Some ''g'' else None),
      zk_verify = (\<lambda>zk r n e signal. zk = ''ok'')\<rparr>"

section \<open>Properties\<close>

subsection \<open>Auxiliary facts\<close>

lemma insert_msg_returned: "returned (insert_msg S z msg p)"
  by (simp add: insert_msg_def split: outcome.splits)

lemma call_insert_Returned:
  "ins (db z) m p = Returned d \<Longrightarrow>
   call_insert ins svc z m p = Returned (z\<lparr>db := d, effects := effects z @ [InsertCall svc m p]\<rparr>)"
  by (simp add: call_insert_def)

lemma call_insert_Threw:
  "ins (db z) m p = Threw e d \<Longrightarrow>
   call_insert ins svc z m p = Threw e (z\<lparr>db := d, effects := effects z @ [InsertCall svc m p]\<rparr>)"
  by (simp add: call_insert_def)

lemma emitted_append: "emitted (xs @ ys) = emitted xs @ emitted ys"
  by (induction xs rule: emitted.induct) simp_all

lemma insert_calls_append: "insert_calls (xs @ ys) = insert_calls xs @ insert_calls ys"
  by (induction xs rule: insert_calls.induct) simp_all

lemma verify_calls_append: "verify_calls (xs @ ys) = verify_calls xs @ verify_calls ys"
  by (induction xs rule: verify_calls.induct) simp_all

lemma deliver_guarded:
  "deliver (guarded ins) z ds = deliver ins z (filter (\<lambda>d. fst d \<noteq> None) ds)"
proof (induction ds arbitrary: z)
  case Nil
  show ?case by simp
next
  case (Cons d ds)
  obtain msg p where d: "d = (msg, p)" by (cases d)
  show ?case
  proof (cases msg)
    case None
    with d Cons show ?thesis by (simp add: guarded_def)
  next
    case (Some m)
    with d Cons show ?thesis by (simp add: guarded_def split: outcome.splits)
  qed
qed


lemma pubsub_run_handler:
  "pubsub_run S c (handler S) z = deliver (insert_msg S) z (filter (\<lambda>d. fst d \<noteq> None) (feed S c))"
  by (simp add: pubsub_run_def handler_def deliver_guarded)

lemma anyListeners_constructor:
  "anyListeners (constructor d) =
     [(PubsubService, ForwardToFacade), (UserService, ForwardToFacade),
      (PostService, ForwardToFacade), (ModerationService, ForwardToFacade),
      (ConnectionService, ForwardToFacade), (ProfileService, ForwardToFacade),
      (GroupService, ForwardToFacade)]"
  by (simp add: constructor_def onAny_def)

lemma partition_insert_fresh:
  "map_of (entries (sel d)) (H m) = None \<Longrightarrow>
   partition_insert H sel upd d m p =
     Returned (upd \<lparr>entries = entries (sel d) @ [(H m, m, p)],
         by_creator = by_creator (sel d) @ [(creator m, H m)],
         by_reference =
           (case reference m of
              None \<Rightarrow> by_reference (sel d)
            | Some parent \<Rightarrow> by_reference (sel d) @ [(parent, H m)]),
         insertion_log = insertion_log (sel d) @ [H m]\<rparr> d)"
  by (simp add: partition_insert_def store_insert_def)

lemma partition_insert_present:
  "map_of (entries (sel d)) (H m) = Some x \<Longrightarrow>
   partition_insert H sel upd d m p = Threw AlreadyExistError d"
  by (simp add: partition_insert_def store_insert_def)

lemma toy_services_simps:
  "feed toy_services = toy_feed"
  "users_getUser toy_services d ''0xa1'' = Some \<lparr>user_address = ''0xa1'', joinedAt = 0\<rparr>"
  "posts_getPost toy_services d ''0xa1gm'' = Some post1"
  "make_message toy_services opts = post1"
  "make_proof toy_services opts m = sig1"
  by (simp_all add: toy_services_def content_services_def failing_services_def stub_services_def)

lemma stub_services_simps:
  "posts_insert (stub_services r) d m p = r d"
  "moderations_insert (stub_services r) d m p = r d"
  "connections_insert (stub_services r) d m p = r d"
  "profile_insert (stub_services r) d m p = r d"
  by (simp_all add: stub_services_def)

lemma example_types:
  "msg_type post1 = Some Post" "msg_type post2 = Some Post"
  "msg_type moderation1 = Some Moderation" "msg_type connection1 = Some Connection"
  "msg_type profile1 = Some Profile" "msg_type file1 = Some (OtherType ''FILE'')"
  "msg_type untyped1 = None"
  by (simp_all add: post1_def post2_def moderation1_def connection1_def profile1_def file1_def
      untyped1_def)

lemma node0_simps:
  "db node0 = empty_db" "effects node0 = []"
  by (simp_all add: node0_def constructor_def onAny_def)

subsection \<open>Every entry path goes through insert\<close>

text \<open>
  Claim C1. Every entry path hands what the pubsub service delivers to \<^verbatim>\<open>insert\<close> and
  does nothing else: \<^verbatim>\<open>queryUser\<close>, \<^verbatim>\<open>queryGroup\<close>, \<^verbatim>\<open>queryAll\<close>,
  \<^verbatim>\<open>subscribe\<close>, \<^verbatim>\<open>subscribeUsers\<close>, \<^verbatim>\<open>subscribeThreads\<close> and the
  \<^verbatim>\<open>subscribe\<close> closures returned by \<^verbatim>\<open>user\<close> and \<^verbatim>\<open>thread\<close> each end in the
  state reached by calling \<^verbatim>\<open>insert\<close> on the delivered pairs that carry a message, one
  after the other in the order of delivery. So whatever a path persists, it persists
  inside a call of \<^verbatim>\<open>insert\<close>.
\<close>

theorem every_path_routes_through_insert:
  "queryUser S z address = deliver (insert_msg S) z (filter (\<lambda>d. fst d \<noteq> None) (feed S (QueryUser address)))
   \<and> queryGroup S z groupId = deliver (insert_msg S) z (filter (\<lambda>d. fst d \<noteq> None) (feed S (QueryGroup groupId)))
   \<and> queryAll S z = deliver (insert_msg S) z (filter (\<lambda>d. fst d \<noteq> None) (feed S QueryAll))
   \<and> subscribe S z = deliver (insert_msg S) z (filter (\<lambda>d. fst d \<noteq> None) (feed S SubscribeAll))
   \<and> subscribeUsers S z addresses =
        deliver (insert_msg S) z (filter (\<lambda>d. fst d \<noteq> None) (feed S (SubscribeUsers addresses)))
   \<and> subscribeThreads S z hashes =
        deliver (insert_msg S) z (filter (\<lambda>d. fst d \<noteq> None) (feed S (SubscribeThreads hashes)))
   \<and> (\<forall>u sub. user S z address = Some (u, sub) \<longrightarrow>
         (\<forall>z'. sub z' = deliver (insert_msg S) z' (filter (\<lambda>d. fst d \<noteq> None) (feed S (SubscribeUser address)))))
   \<and> (\<forall>post sub. thread S z hash = Some (post, sub) \<longrightarrow>
         (\<forall>z'. sub z' = deliver (insert_msg S) z' (filter (\<lambda>d. fst d \<noteq> None) (feed S (SubscribeThread hash)))))"
  by (auto simp: queryUser_def queryGroup_def queryAll_def subscribe_def subscribeUsers_def
      subscribeThreads_def user_def thread_def user_subscribe_def thread_subscribe_def
      pubsub_run_handler split: option.splits)

theorem every_path_routes_through_insert_witness:
  "user toy_services node0 ''0xa1'' =
     Some (\<lparr>user_address = ''0xa1'', joinedAt = 0\<rparr>, user_subscribe toy_services ''0xa1'')
   \<and> user_subscribe toy_services ''0xa1'' node0 =
       deliver (insert_msg toy_services) node0 [(Some post1, sig1), (Some post1, sig1)]
   \<and> thread toy_services node0 ''0xa1gm'' = Some (post1, thread_subscribe toy_services ''0xa1gm'')
   \<and> thread_subscribe toy_services ''0xa1gm'' node0 =
       deliver (insert_msg toy_services) node0 [(Some post1, sig1), (Some post1, sig1)]
   \<and> queryAll toy_services node0 =
       deliver (insert_msg toy_services) node0 [(Some post1, sig1), (Some post1, sig1)]"
proof -
  have u: "user toy_services node0 ''0xa1'' =
      Some (\<lparr>user_address = ''0xa1'', joinedAt = 0\<rparr>, user_subscribe toy_services ''0xa1'')"
    by (simp add: user_def toy_services_simps)
  have t: "thread toy_services node0 ''0xa1gm'' = Some (post1, thread_subscribe toy_services ''0xa1gm'')"
    by (simp add: thread_def toy_services_simps)
  from every_path_routes_through_insert
    [where S = toy_services and z = node0 and address = "''0xa1''" and hash = "''0xa1gm''"] u t
  show ?thesis
    by (simp add: toy_services_simps toy_feed_def)
qed

subsection \<open>The null guard of the handlers\<close>



subsection \<open>Dispatch by message type\<close>

text \<open>
  Claim C6. For a message of type Post, Moderation, Connection or Profile whose service
  insert returns, \<^verbatim>\<open>insert\<close> returns with the database that service left, and its
  actions are exactly two: one call of the \<^verbatim>\<open>insert\<close> of the service matching the type
  (posts, moderations, connections, profile), then one \<^verbatim>\<open>NewMessageCreated\<close> event
  carrying the message.
\<close>

theorem insert_dispatches_by_type:
  "(msg_type m = Some Post \<and> posts_insert S (db z) m p = Returned d \<longrightarrow>
      insert_msg S z (Some m) p =
        Returned (z\<lparr>db := d, effects := effects z @
          [InsertCall PostService m p, Emitted ''Zkitter.NewMessageCreated'' (MsgValue m)]\<rparr>))
   \<and> (msg_type m = Some Moderation \<and> moderations_insert S (db z) m p = Returned d \<longrightarrow>
      insert_msg S z (Some m) p =
        Returned (z\<lparr>db := d, effects := effects z @
          [InsertCall ModerationService m p, Emitted ''Zkitter.NewMessageCreated'' (MsgValue m)]\<rparr>))
   \<and> (msg_type m = Some Connection \<and> connections_insert S (db z) m p = Returned d \<longrightarrow>
      insert_msg S z (Some m) p =
        Returned (z\<lparr>db := d, effects := effects z @
          [InsertCall ConnectionService m p, Emitted ''Zkitter.NewMessageCreated'' (MsgValue m)]\<rparr>))
   \<and> (msg_type m = Some Profile \<and> profile_insert S (db z) m p = Returned d \<longrightarrow>
      insert_msg S z (Some m) p =
        Returned (z\<lparr>db := d, effects := effects z @
          [InsertCall ProfileService m p, Emitted ''Zkitter.NewMessageCreated'' (MsgValue m)]\<rparr>))"
  by (simp add: insert_msg_def call_insert_Returned emit_def)

theorem insert_dispatches_by_type_witness:
  "insert_msg (stub_services Returned) node0 (Some post1) sig1 =
     Returned (node0\<lparr>effects :=
       [InsertCall PostService post1 sig1, Emitted ''Zkitter.NewMessageCreated'' (MsgValue post1)]\<rparr>)
   \<and> insert_msg (stub_services Returned) node0 (Some moderation1) sig1 =
     Returned (node0\<lparr>effects :=
       [InsertCall ModerationService moderation1 sig1,
        Emitted ''Zkitter.NewMessageCreated'' (MsgValue moderation1)]\<rparr>)
   \<and> insert_msg (stub_services Returned) node0 (Some connection1) sig1 =
     Returned (node0\<lparr>effects :=
       [InsertCall ConnectionService connection1 sig1,
        Emitted ''Zkitter.NewMessageCreated'' (MsgValue connection1)]\<rparr>)
   \<and> insert_msg (stub_services Returned) node0 (Some profile1) sig1 =
     Returned (node0\<lparr>effects :=
       [InsertCall ProfileService profile1 sig1,
        Emitted ''Zkitter.NewMessageCreated'' (MsgValue profile1)]\<rparr>)"
  using
    insert_dispatches_by_type [where S = "stub_services Returned" and z = node0 and m = post1
      and p = sig1 and d = empty_db]
    insert_dispatches_by_type [where S = "stub_services Returned" and z = node0 and m = moderation1
      and p = sig1 and d = empty_db]
    insert_dispatches_by_type [where S = "stub_services Returned" and z = node0 and m = connection1
      and p = sig1 and d = empty_db]
    insert_dispatches_by_type [where S = "stub_services Returned" and z = node0 and m = profile1
      and p = sig1 and d = empty_db]
  by (simp add: stub_services_simps example_types node0_simps)

text \<open>
  Claim C9. For a message whose type is none of Post, Moderation, Connection and Profile
  (another type, or no type at all), and for a null message, \<^verbatim>\<open>insert\<close> returns with
  the state unchanged: no service is called and no event is emitted.
\<close>

theorem insert_other_type_noop:
  "(msg_type m \<notin> {Some Post, Some Moderation, Some Connection, Some Profile} \<longrightarrow>
      insert_msg S z (Some m) p = Returned z)
   \<and> insert_msg S z None p = Returned z"
  by (auto simp: insert_msg_def split: option.splits MessageType.splits)

theorem insert_other_type_noop_witness:
  "insert_msg (stub_services Returned) node0 (Some file1) sig1 = Returned node0
   \<and> insert_msg (stub_services Returned) node0 (Some untyped1) sig1 = Returned node0
   \<and> insert_msg (stub_services Returned) node0 None sig1 = Returned node0"
  using
    insert_other_type_noop [where S = "stub_services Returned" and z = node0 and m = file1 and p = sig1]
    insert_other_type_noop [where S = "stub_services Returned" and z = node0 and m = untyped1 and p = sig1]
  by (simp add: example_types)

subsection \<open>The catch block\<close>

text \<open>
  Claim C4. When the service's insert throws \<^verbatim>\<open>AlreadyExistError\<close>, \<^verbatim>\<open>insert\<close>
  returns normally; after the service call its only action is one \<^verbatim>\<open>AlreadyExist\<close>
  event carrying the message, and \<^verbatim>\<open>NewMessageCreated\<close> is not emitted.
\<close>

theorem already_exists_is_an_event:
  "(msg_type m = Some Post \<and> posts_insert S (db z) m p = Threw AlreadyExistError d \<longrightarrow>
      insert_msg S z (Some m) p =
        Returned (z\<lparr>db := d, effects := effects z @
          [InsertCall PostService m p, Emitted ''Level.AlreadyExist'' (MsgValue m)]\<rparr>))
   \<and> (msg_type m = Some Moderation \<and> moderations_insert S (db z) m p = Threw AlreadyExistError d \<longrightarrow>
      insert_msg S z (Some m) p =
        Returned (z\<lparr>db := d, effects := effects z @
          [InsertCall ModerationService m p, Emitted ''Level.AlreadyExist'' (MsgValue m)]\<rparr>))
   \<and> (msg_type m = Some Connection \<and> connections_insert S (db z) m p = Threw AlreadyExistError d \<longrightarrow>
      insert_msg S z (Some m) p =
        Returned (z\<lparr>db := d, effects := effects z @
          [InsertCall ConnectionService m p, Emitted ''Level.AlreadyExist'' (MsgValue m)]\<rparr>))
   \<and> (msg_type m = Some Profile \<and> profile_insert S (db z) m p = Threw AlreadyExistError d \<longrightarrow>
      insert_msg S z (Some m) p =
        Returned (z\<lparr>db := d, effects := effects z @
          [InsertCall ProfileService m p, Emitted ''Level.AlreadyExist'' (MsgValue m)]\<rparr>))"
  by (simp add: insert_msg_def call_insert_Threw emit_def)

theorem already_exists_is_an_event_witness:
  "insert_msg (stub_services (Threw AlreadyExistError)) node0 (Some post1) sig1 =
     Returned (node0\<lparr>effects :=
       [InsertCall PostService post1 sig1, Emitted ''Level.AlreadyExist'' (MsgValue post1)]\<rparr>)
   \<and> insert_msg (stub_services (Threw AlreadyExistError)) node0 (Some moderation1) sig1 =
     Returned (node0\<lparr>effects :=
       [InsertCall ModerationService moderation1 sig1,
        Emitted ''Level.AlreadyExist'' (MsgValue moderation1)]\<rparr>)
   \<and> insert_msg (stub_services (Threw AlreadyExistError)) node0 (Some connection1) sig1 =
     Returned (node0\<lparr>effects :=
       [InsertCall ConnectionService connection1 sig1,
        Emitted ''Level.AlreadyExist'' (MsgValue connection1)]\<rparr>)
   \<and> insert_msg (stub_services (Threw AlreadyExistError)) node0 (Some profile1) sig1 =
     Returned (node0\<lparr>effects :=
       [InsertCall ProfileService profile1 sig1,
        Emitted ''Level.AlreadyExist'' (MsgValue profile1)]\<rparr>)"
  using
    already_exists_is_an_event [where S = "stub_services (Threw AlreadyExistError)" and z = node0
      and m = post1 and p = sig1 and d = empty_db]
    already_exists_is_an_event [where S = "stub_services (Threw AlreadyExistError)" and z = node0
      and m = moderation1 and p = sig1 and d = empty_db]
    already_exists_is_an_event [where S = "stub_services (Threw AlreadyExistError)" and z = node0
      and m = connection1 and p = sig1 and d = empty_db]
    already_exists_is_an_event [where S = "stub_services (Threw AlreadyExistError)" and z = node0
      and m = profile1 and p = sig1 and d = empty_db]
  by (simp add: stub_services_simps example_types node0_simps)

text \<open>
  Claim C5, as amended. The claim says that a failure of the persistence layer other than
  already-exists reaches the caller of \<^verbatim>\<open>insert\<close> as an exception. The catch block has
  no branch that rethrows: when the service's insert throws anything but
  \<^verbatim>\<open>AlreadyExistError\<close>, \<^verbatim>\<open>insert\<close> returns normally with the state the failing
  service left, and emits no event.
\<close>

theorem other_failure_is_swallowed:
  "e \<noteq> AlreadyExistError \<Longrightarrow>
   (msg_type m = Some Post \<and> posts_insert S (db z) m p = Threw e d \<longrightarrow>
      insert_msg S z (Some m) p =
        Returned (z\<lparr>db := d, effects := effects z @ [InsertCall PostService m p]\<rparr>))
   \<and> (msg_type m = Some Moderation \<and> moderations_insert S (db z) m p = Threw e d \<longrightarrow>
      insert_msg S z (Some m) p =
        Returned (z\<lparr>db := d, effects := effects z @ [InsertCall ModerationService m p]\<rparr>))
   \<and> (msg_type m = Some Connection \<and> connections_insert S (db z) m p = Threw e d \<longrightarrow>
      insert_msg S z (Some m) p =
        Returned (z\<lparr>db := d, effects := effects z @ [InsertCall ConnectionService m p]\<rparr>))
   \<and> (msg_type m = Some Profile \<and> profile_insert S (db z) m p = Threw e d \<longrightarrow>
      insert_msg S z (Some m) p =
        Returned (z\<lparr>db := d, effects := effects z @ [InsertCall ProfileService m p]\<rparr>))"
  by (simp add: insert_msg_def call_insert_Threw emit_def)

theorem other_failure_is_swallowed_witness:
  "insert_msg failing_services node0 (Some post1) sig1 =
     Returned (node0\<lparr>effects := [InsertCall PostService post1 sig1]\<rparr>)
   \<and> insert_msg failing_services node0 (Some moderation1) sig1 =
     Returned (node0\<lparr>effects := [InsertCall ModerationService moderation1 sig1]\<rparr>)
   \<and> insert_msg failing_services node0 (Some connection1) sig1 =
     Returned (node0\<lparr>effects := [InsertCall ConnectionService connection1 sig1]\<rparr>)
   \<and> insert_msg failing_services node0 (Some profile1) sig1 =
     Returned (node0\<lparr>effects := [InsertCall ProfileService profile1 sig1]\<rparr>)"
proof -
  have e: "OtherError ''storage failure'' \<noteq> AlreadyExistError"
    by simp
  from
    other_failure_is_swallowed [OF e, where S = failing_services and z = node0
      and m = post1 and p = sig1 and d = empty_db]
    other_failure_is_swallowed [OF e, where S = failing_services and z = node0
      and m = moderation1 and p = sig1 and d = empty_db]
    other_failure_is_swallowed [OF e, where S = failing_services and z = node0
      and m = connection1 and p = sig1 and d = empty_db]
    other_failure_is_swallowed [OF e, where S = failing_services and z = node0
      and m = profile1 and p = sig1 and d = empty_db]
  show ?thesis
    by (simp add: failing_services_def stub_services_simps example_types node0_simps)
qed

text \<open>
  The claim as stated fails on a post whose service insert throws a storage failure:
  \<^verbatim>\<open>insert\<close> returns.
\<close>

theorem storage_failure_does_not_raise:
  "posts_insert failing_services (db node0) post1 sig1 = Threw (OtherError ''storage failure'') empty_db
   \<and> insert_msg failing_services node0 (Some post1) sig1 =
       Returned (node0\<lparr>effects := [InsertCall PostService post1 sig1]\<rparr>)"
  by (simp add: insert_msg_def call_insert_def failing_services_def stub_services_def node0_def
      constructor_def onAny_def post1_def)

subsection \<open>Event forwarding\<close>

text \<open>
  Claim C7. On a facade with the listeners its constructor registered, an event emitted by
  any of the seven services (users, pubsub, posts, moderations, connections, profile,
  groups) is emitted once more by the facade, under the same name and with the same value.
\<close>

theorem service_events_are_forwarded:
  "(anyListeners z = anyListeners (constructor d) \<longrightarrow>
      service_emit svc event v z = z\<lparr>effects := effects z @ [Emitted event v]\<rparr>)
   \<and> emitted (effects (service_emit svc event v (constructor d))) = [(event, v)]"
proof -
  have "service_emit svc event v z = z\<lparr>effects := effects z @ [Emitted event v]\<rparr>"
    if "anyListeners z = anyListeners (constructor d)"
    using that by (cases svc) (simp_all add: service_emit_def anyListeners_constructor emit_def)
  moreover have "emitted (effects (service_emit svc event v (constructor d))) = [(event, v)]"
    by (cases svc) (simp_all add: service_emit_def anyListeners_constructor emit_def,
        simp_all add: constructor_def onAny_def)
  ultimately show ?thesis by simp
qed

theorem service_events_are_forwarded_witness:
  "service_emit GroupService ''Group.NewGroupMemberCreated'' (OtherValue ''id'') node0 =
     node0\<lparr>effects := [Emitted ''Group.NewGroupMemberCreated'' (OtherValue ''id'')]\<rparr>
   \<and> service_emit UserService ''Users.ArbitrumSynced'' NoValue node0 =
     node0\<lparr>effects := [Emitted ''Users.ArbitrumSynced'' NoValue]\<rparr>"
  using
    service_events_are_forwarded [where z = node0 and d = empty_db and svc = GroupService
      and event = "''Group.NewGroupMemberCreated''" and v = "OtherValue ''id''"]
    service_events_are_forwarded [where z = node0 and d = empty_db and svc = UserService
      and event = "''Users.ArbitrumSynced''" and v = NoValue]
  by (simp add: node0_def node0_simps [unfolded node0_def])

subsection \<open>Authoring\<close>

text \<open>
  Claim C8. \<^verbatim>\<open>write\<close> returns the message constructed from the authoring options, and
  its only action is the publication of that message with its proof. Among the node's
  actions the calls of the verifier, the calls of a service's \<^verbatim>\<open>insert\<close> and the events
  stay what they were, and so does the database, whatever it holds. On a node that
  verifies, where every run of the verifier is one more \<open>VerifyCall\<close>, the nullifier
  ledger is therefore the same after \<^verbatim>\<open>write\<close>, and the verdict on any pair is the one
  the node would have given before: the authored proof has not been checked or recorded
  by its author.
\<close>

theorem write_publishes_and_returns:
  "write_msg S z opts =
     (z\<lparr>effects := effects z @ [Published (make_message S opts) (make_proof S opts (make_message S opts))]\<rparr>,
      make_message S opts)
   \<and> verify_calls (effects (fst (write_msg S z opts))) = verify_calls (effects z)
   \<and> insert_calls (effects (fst (write_msg S z opts))) = insert_calls (effects z)
   \<and> emitted (effects (fst (write_msg S z opts))) = emitted (effects z)
   \<and> db (fst (write_msg S z opts)) = db z
   \<and> verify_calls (effects (fst (call_verify E y m p))) = verify_calls (effects y) @ [(m, p)]
   \<and> nullifiers (db (fst (write_msg V y opts))) = nullifiers (db y)
   \<and> snd (call_verify E (fst (write_msg V y opts)) m p) = snd (call_verify E y m p)"
proof -
  have w: "write_msg S z opts =
     (z\<lparr>effects := effects z @ [Published (make_message S opts) (make_proof S opts (make_message S opts))]\<rparr>,
      make_message S opts)"
    by (simp add: write_msg_def pubsub_write_def Let_def)
  have w': "db (fst (write_msg V y opts)) = db y"
    by (simp add: write_msg_def pubsub_write_def Let_def)
  have c: "verify_calls (effects (fst (call_verify E y m p))) = verify_calls (effects y) @ [(m, p)]"
    by (simp add: call_verify_def verify_calls_append split: prod.splits)
  have v: "snd (call_verify E (fst (write_msg V y opts)) m p) = snd (call_verify E y m p)"
    by (simp add: w' call_verify_def split: prod.splits)
  from c v w' show ?thesis
    by (simp add: w verify_calls_append insert_calls_append emitted_append)
qed

theorem write_publishes_and_returns_witness:
  "write_msg authoring_services node1 anon_options =
     (node1\<lparr>effects := [Published post2 anon_proof]\<rparr>, post2)
   \<and> verify_calls (effects (fst (write_msg authoring_services node1 anon_options))) = []
   \<and> nullifiers (db (fst (write_msg authoring_services node1 anon_options))) = []
   \<and> call_verify toy_env node1 post2 anon_proof =
       (node1\<lparr>db := \<lparr>stores = empty_db, nullifiers = [(''g'', ''n1'', ''e1'')]\<rparr>,
              effects := [VerifyCall post2 anon_proof]\<rparr>, Accept)
   \<and> snd (call_verify toy_env (fst (write_msg authoring_services node1 anon_options)) post2 anon_proof)
       = Accept"
proof -
  have n: "db node1 = \<lparr>stores = empty_db, nullifiers = []\<rparr>" "effects node1 = []"
    by (simp_all add: node1_def constructor_def onAny_def)
  have a: "make_message authoring_services anon_options = post2"
    "make_proof authoring_services anon_options post2 = anon_proof"
    by (simp_all add: authoring_services_def)
  have cv: "call_verify toy_env node1 post2 anon_proof =
       (node1\<lparr>db := \<lparr>stores = empty_db, nullifiers = [(''g'', ''n1'', ''e1'')]\<rparr>,
              effects := [VerifyCall post2 anon_proof]\<rparr>, Accept)"
    by (simp add: call_verify_def n anon_proof_def toy_env_def)
  note w = write_publishes_and_returns
    [where S = authoring_services and z = node1 and opts = anon_options and V = authoring_services
       and y = node1 and E = toy_env and m = post2 and p = anon_proof]
  from w have r: "write_msg authoring_services node1 anon_options =
      (node1\<lparr>effects := [Published post2 anon_proof]\<rparr>, post2)"
    by (simp add: a n)
  from w have vc: "verify_calls (effects (fst (write_msg authoring_services node1 anon_options))) = []"
    by (simp add: n)
  from w have l: "nullifiers (db (fst (write_msg authoring_services node1 anon_options))) = []"
    by (simp add: n)
  from w have "snd (call_verify toy_env (fst (write_msg authoring_services node1 anon_options))
      post2 anon_proof) = snd (call_verify toy_env node1 post2 anon_proof)"
    by blast
  then have s: "snd (call_verify toy_env (fst (write_msg authoring_services node1 anon_options))
      post2 anon_proof) = Accept"
    by (simp only: cv snd_conv)
  from r vc l cv s show ?thesis
    by blast
qed

subsection \<open>Idempotent insertion over the content stores\<close>

text \<open>
  Claim C3. Over the content stores, inserting a pair whose message is not yet stored
  twice emits \<^verbatim>\<open>NewMessageCreated\<close> on the first call, which stores the pair, and
  \<^verbatim>\<open>AlreadyExist\<close> on the second; both calls return, and the database after the second
  call is the database after the first.
\<close>

theorem insert_twice_is_idempotent:
  assumes t: "msg_type m \<in> {Some Post, Some Moderation, Some Connection, Some Profile}"
      and fresh: "stored_entry H (db z) m = None"
  shows "returned (insert_msg (content_services H S) z (Some m) p)
    \<and> emitted (effects (state_of (insert_msg (content_services H S) z (Some m) p)))
        = emitted (effects z) @ [(''Zkitter.NewMessageCreated'', MsgValue m)]
    \<and> stored_entry H (db (state_of (insert_msg (content_services H S) z (Some m) p))) m = Some (m, p)
    \<and> returned (insert_msg (content_services H S)
          (state_of (insert_msg (content_services H S) z (Some m) p)) (Some m) p)
    \<and> emitted (effects (state_of (insert_msg (content_services H S)
          (state_of (insert_msg (content_services H S) z (Some m) p)) (Some m) p)))
        = emitted (effects z)
          @ [(''Zkitter.NewMessageCreated'', MsgValue m), (''Level.AlreadyExist'', MsgValue m)]
    \<and> db (state_of (insert_msg (content_services H S)
          (state_of (insert_msg (content_services H S) z (Some m) p)) (Some m) p))
        = db (state_of (insert_msg (content_services H S) z (Some m) p))"
proof -
  from t consider "msg_type m = Some Post" | "msg_type m = Some Moderation"
    | "msg_type m = Some Connection" | "msg_type m = Some Profile"
    by auto
  then show ?thesis
  proof cases
    case 1
    let ?S = "content_services H S"
    define st where "st =
      \<lparr>entries = entries (post_store (db z)) @ [(H m, m, p)],
       by_creator = by_creator (post_store (db z)) @ [(creator m, H m)],
       by_reference =
         (case reference m of
            None \<Rightarrow> by_reference (post_store (db z))
          | Some parent \<Rightarrow> by_reference (post_store (db z)) @ [(parent, H m)]),
       insertion_log = insertion_log (post_store (db z)) @ [H m]\<rparr>"
    define z1 where "z1 =
      z\<lparr>db := (db z)\<lparr>post_store := st\<rparr>,
        effects := effects z @
          [InsertCall PostService m p, Emitted ''Zkitter.NewMessageCreated'' (MsgValue m)]\<rparr>"
    have ins: "posts_insert ?S = partition_insert H post_store (\<lambda>st d. d\<lparr>post_store := st\<rparr>)"
      by (simp add: content_services_def)
    from 1 fresh have f: "map_of (entries (post_store (db z))) (H m) = None"
      by (simp add: stored_entry_def)
    then have "posts_insert ?S (db z) m p = Returned ((db z)\<lparr>post_store := st\<rparr>)"
      by (simp add: ins partition_insert_fresh st_def)
    with 1 have r1: "insert_msg ?S z (Some m) p = Returned z1"
      by (simp add: insert_msg_def call_insert_Returned emit_def z1_def)
    from f have in1: "map_of (entries (post_store (db z1))) (H m) = Some (m, p)"
      by (simp add: z1_def st_def map_add_def)
    then have "posts_insert ?S (db z1) m p = Threw AlreadyExistError (db z1)"
      by (simp add: ins partition_insert_present)
    with 1 have r2: "insert_msg ?S z1 (Some m) p =
        Returned (z1\<lparr>effects := effects z1 @
          [InsertCall PostService m p, Emitted ''Level.AlreadyExist'' (MsgValue m)]\<rparr>)"
      by (simp add: insert_msg_def call_insert_Threw emit_def)
    have ev: "emitted (effects z1) = emitted (effects z) @ [(''Zkitter.NewMessageCreated'', MsgValue m)]"
      by (simp add: z1_def emitted_append)
    from 1 in1 have "stored_entry H (db z1) m = Some (m, p)"
      by (simp add: stored_entry_def)
    with ev show ?thesis
      by (simp add: r1 r2 emitted_append)
  next
    case 2
    let ?S = "content_services H S"
    define st where "st =
      \<lparr>entries = entries (moderation_store (db z)) @ [(H m, m, p)],
       by_creator = by_creator (moderation_store (db z)) @ [(creator m, H m)],
       by_reference =
         (case reference m of
            None \<Rightarrow> by_reference (moderation_store (db z))
          | Some parent \<Rightarrow> by_reference (moderation_store (db z)) @ [(parent, H m)]),
       insertion_log = insertion_log (moderation_store (db z)) @ [H m]\<rparr>"
    define z1 where "z1 =
      z\<lparr>db := (db z)\<lparr>moderation_store := st\<rparr>,
        effects := effects z @
          [InsertCall ModerationService m p, Emitted ''Zkitter.NewMessageCreated'' (MsgValue m)]\<rparr>"
    have ins: "moderations_insert ?S = partition_insert H moderation_store (\<lambda>st d. d\<lparr>moderation_store := st\<rparr>)"
      by (simp add: content_services_def)
    from 2 fresh have f: "map_of (entries (moderation_store (db z))) (H m) = None"
      by (simp add: stored_entry_def)
    then have "moderations_insert ?S (db z) m p = Returned ((db z)\<lparr>moderation_store := st\<rparr>)"
      by (simp add: ins partition_insert_fresh st_def)
    with 2 have r1: "insert_msg ?S z (Some m) p = Returned z1"
      by (simp add: insert_msg_def call_insert_Returned emit_def z1_def)
    from f have in1: "map_of (entries (moderation_store (db z1))) (H m) = Some (m, p)"
      by (simp add: z1_def st_def map_add_def)
    then have "moderations_insert ?S (db z1) m p = Threw AlreadyExistError (db z1)"
      by (simp add: ins partition_insert_present)
    with 2 have r2: "insert_msg ?S z1 (Some m) p =
        Returned (z1\<lparr>effects := effects z1 @
          [InsertCall ModerationService m p, Emitted ''Level.AlreadyExist'' (MsgValue m)]\<rparr>)"
      by (simp add: insert_msg_def call_insert_Threw emit_def)
    have ev: "emitted (effects z1) = emitted (effects z) @ [(''Zkitter.NewMessageCreated'', MsgValue m)]"
      by (simp add: z1_def emitted_append)
    from 2 in1 have "stored_entry H (db z1) m = Some (m, p)"
      by (simp add: stored_entry_def)
    with ev show ?thesis
      by (simp add: r1 r2 emitted_append)
  next
    case 3
    let ?S = "content_services H S"
    define st where "st =
      \<lparr>entries = entries (connection_store (db z)) @ [(H m, m, p)],
       by_creator = by_creator (connection_store (db z)) @ [(creator m, H m)],
       by_reference =
         (case reference m of
            None \<Rightarrow> by_reference (connection_store (db z))
          | Some parent \<Rightarrow> by_reference (connection_store (db z)) @ [(parent, H m)]),
       insertion_log = insertion_log (connection_store (db z)) @ [H m]\<rparr>"
    define z1 where "z1 =
      z\<lparr>db := (db z)\<lparr>connection_store := st\<rparr>,
        effects := effects z @
          [InsertCall ConnectionService m p, Emitted ''Zkitter.NewMessageCreated'' (MsgValue m)]\<rparr>"
    have ins: "connections_insert ?S = partition_insert H connection_store (\<lambda>st d. d\<lparr>connection_store := st\<rparr>)"
      by (simp add: content_services_def)
    from 3 fresh have f: "map_of (entries (connection_store (db z))) (H m) = None"
      by (simp add: stored_entry_def)
    then have "connections_insert ?S (db z) m p = Returned ((db z)\<lparr>connection_store := st\<rparr>)"
      by (simp add: ins partition_insert_fresh st_def)
    with 3 have r1: "insert_msg ?S z (Some m) p = Returned z1"
      by (simp add: insert_msg_def call_insert_Returned emit_def z1_def)
    from f have in1: "map_of (entries (connection_store (db z1))) (H m) = Some (m, p)"
      by (simp add: z1_def st_def map_add_def)
    then have "connections_insert ?S (db z1) m p = Threw AlreadyExistError (db z1)"
      by (simp add: ins partition_insert_present)
    with 3 have r2: "insert_msg ?S z1 (Some m) p =
        Returned (z1\<lparr>effects := effects z1 @
          [InsertCall ConnectionService m p, Emitted ''Level.AlreadyExist'' (MsgValue m)]\<rparr>)"
      by (simp add: insert_msg_def call_insert_Threw emit_def)
    have ev: "emitted (effects z1) = emitted (effects z) @ [(''Zkitter.NewMessageCreated'', MsgValue m)]"
      by (simp add: z1_def emitted_append)
    from 3 in1 have "stored_entry H (db z1) m = Some (m, p)"
      by (simp add: stored_entry_def)
    with ev show ?thesis
      by (simp add: r1 r2 emitted_append)
  next
    case 4
    let ?S = "content_services H S"
    define st where "st =
      \<lparr>entries = entries (profile_store (db z)) @ [(H m, m, p)],
       by_creator = by_creator (profile_store (db z)) @ [(creator m, H m)],
       by_reference =
         (case reference m of
            None \<Rightarrow> by_reference (profile_store (db z))
          | Some parent \<Rightarrow> by_reference (profile_store (db z)) @ [(parent, H m)]),
       insertion_log = insertion_log (profile_store (db z)) @ [H m]\<rparr>"
    define z1 where "z1 =
      z\<lparr>db := (db z)\<lparr>profile_store := st\<rparr>,
        effects := effects z @
          [InsertCall ProfileService m p, Emitted ''Zkitter.NewMessageCreated'' (MsgValue m)]\<rparr>"
    have ins: "profile_insert ?S = partition_insert H profile_store (\<lambda>st d. d\<lparr>profile_store := st\<rparr>)"
      by (simp add: content_services_def)
    from 4 fresh have f: "map_of (entries (profile_store (db z))) (H m) = None"
      by (simp add: stored_entry_def)
    then have "profile_insert ?S (db z) m p = Returned ((db z)\<lparr>profile_store := st\<rparr>)"
      by (simp add: ins partition_insert_fresh st_def)
    with 4 have r1: "insert_msg ?S z (Some m) p = Returned z1"
      by (simp add: insert_msg_def call_insert_Returned emit_def z1_def)
    from f have in1: "map_of (entries (profile_store (db z1))) (H m) = Some (m, p)"
      by (simp add: z1_def st_def map_add_def)
    then have "profile_insert ?S (db z1) m p = Threw AlreadyExistError (db z1)"
      by (simp add: ins partition_insert_present)
    with 4 have r2: "insert_msg ?S z1 (Some m) p =
        Returned (z1\<lparr>effects := effects z1 @
          [InsertCall ProfileService m p, Emitted ''Level.AlreadyExist'' (MsgValue m)]\<rparr>)"
      by (simp add: insert_msg_def call_insert_Threw emit_def)
    have ev: "emitted (effects z1) = emitted (effects z) @ [(''Zkitter.NewMessageCreated'', MsgValue m)]"
      by (simp add: z1_def emitted_append)
    from 4 in1 have "stored_entry H (db z1) m = Some (m, p)"
      by (simp add: stored_entry_def)
    with ev show ?thesis
      by (simp add: r1 r2 emitted_append)
  qed
qed

theorem insert_twice_is_idempotent_witness:
  "emitted (effects (state_of (insert_msg toy_services
      (state_of (insert_msg toy_services node0 (Some post1) sig1)) (Some post1) sig1)))
     = [(''Zkitter.NewMessageCreated'', MsgValue post1), (''Level.AlreadyExist'', MsgValue post1)]
   \<and> stored_entry toy_hash (db (state_of (insert_msg toy_services node0 (Some post1) sig1))) post1
     = Some (post1, sig1)
   \<and> db (state_of (insert_msg toy_services
      (state_of (insert_msg toy_services node0 (Some post1) sig1)) (Some post1) sig1))
     = db (state_of (insert_msg toy_services node0 (Some post1) sig1))"
proof -
  have t: "msg_type post1 \<in> {Some Post, Some Moderation, Some Connection, Some Profile}"
    by (simp add: example_types)
  have f: "stored_entry toy_hash (db node0) post1 = None"
    by (simp add: stored_entry_def example_types node0_simps empty_db_def empty_store_def)
  from insert_twice_is_idempotent [OF t f, where S = failing_services and p = sig1]
  show ?thesis
    by (simp add: toy_services_def node0_simps)
qed

subsection \<open>Nullifier replay\<close>

text \<open>
  Claim C2. When a group proof with nullifier \<open>n\<close> and external nullifier \<open>e\<close> is
  accepted for a group, the pair is recorded in the ledger for that group, where it was
  not before. From then on a group proof carrying the same pair for the same group, on
  any message and with any root of that group, is rejected with \<^verbatim>\<open>NullifierReused\<close>
  once it passes the checks that come before the ledger's in \<^verbatim>\<open>verify\<close>; the ledger
  is left as it is.
\<close>

theorem nullifier_replay_is_rejected:
  assumes first: "verify E L m1 (GroupProof r1 n e zk1) = (Accept, L1)"
      and g1: "getGroupByRoot E r1 = Some g"
      and g2: "getGroupByRoot E r2 = Some g"
      and zk2: "zk_verify E zk2 r2 n e (hash_of E m2)"
      and later: "set L1 \<subseteq> set L2"
  shows "(g, n, e) \<notin> set L \<and> L1 = L @ [(g, n, e)]
    \<and> verify E L2 m2 (GroupProof r2 n e zk2) = (Reject NullifierReused, L2)"
proof -
  from first g1 have rec: "(g, n, e) \<notin> set L \<and> L1 = L @ [(g, n, e)]"
    by (auto split: if_splits)
  then have "(g, n, e) \<in> set L1" by simp
  with later have "(g, n, e) \<in> set L2" by blast
  with g2 zk2 have "verify E L2 m2 (GroupProof r2 n e zk2) = (Reject NullifierReused, L2)"
    by simp
  with rec show ?thesis by simp
qed

theorem nullifier_replay_is_rejected_witness:
  "verify toy_env [] post1 (GroupProof ''r0'' ''n1'' ''e1'' ''ok'') = (Accept, [(''g'', ''n1'', ''e1'')])
   \<and> verify toy_env [(''g'', ''n1'', ''e1'')] post2 (GroupProof ''r1'' ''n1'' ''e1'' ''ok'')
       = (Reject NullifierReused, [(''g'', ''n1'', ''e1'')])"
proof -
  have first: "verify toy_env [] post1 (GroupProof ''r0'' ''n1'' ''e1'' ''ok'')
      = (Accept, [(''g'', ''n1'', ''e1'')])"
    by (simp add: toy_env_def)
  have g1: "getGroupByRoot toy_env ''r0'' = Some ''g''"
    by (simp add: toy_env_def)
  have g2: "getGroupByRoot toy_env ''r1'' = Some ''g''"
    by (simp add: toy_env_def)
  have zk2: "zk_verify toy_env ''ok'' ''r1'' ''n1'' ''e1'' (hash_of toy_env post2)"
    by (simp add: toy_env_def)
  have later: "set [(''g'', ''n1'', ''e1'')] \<subseteq> set [(''g'', ''n1'', ''e1'')]"
    by simp
  from nullifier_replay_is_rejected [OF first g1 g2 zk2 later] first
  show ?thesis
    by simp
qed

end
